theory Spec2Isabelle
  imports Complex_Main
begin

section \<open>EmbedMan: the embedding pipeline of embed\_man/embed\_manager.py\<close>

text \<open>
  The repository is one class, \<open>EmbedManager\<close>, with a constructor and four methods:
  \<open>load_documents\<close>, \<open>split_documents\<close>, \<open>generate_embeddings\<close> and \<open>run\<close>. Everything
  else is delegated to library classes (a document loader, a text splitter, an embedding
  model, a file store, a cache-backed embedder and a vector index).

  The methods are translated from the source as functions over an explicit world: the
  Python heap (for the list and dict objects that instances refer to), the directories
  holding cache entries, and three histories (texts handed to the embedding model,
  library objects constructed, calls to the logging module). A raised exception is the
  \<open>Inl\<close> branch of the result, with the world as it was when the exception left the
  method.
\<close>

subsection \<open>Values, exceptions and the world\<close>

type_synonym addr = nat

text \<open>The two kinds of mutable object the configuration refers to: a list of strings
  (\<open>suffixes\<close>, \<open>exclude\<close>) and a dict from strings to integers (\<open>search_kwargs\<close>, in
  insertion order).\<close>

datatype pyobj = PyList "string list" | PyDict "(string \<times> int) list"

text \<open>Exceptions, by the taxonomy of the specification (section 7); \<open>OtherException\<close>
  stands for any other instance of Python's \<open>Exception\<close>.\<close>

datatype exn =
    ConfigurationError string
  | LoaderError string
  | EmbeddingServiceError string
  | CacheIOError string
  | OtherException string

fun exn_str :: "exn \<Rightarrow> string" where
  "exn_str (ConfigurationError s) = s"
| "exn_str (LoaderError s) = s"
| "exn_str (EmbeddingServiceError s) = s"
| "exn_str (CacheIOError s) = s"
| "exn_str (OtherException s) = s"

text \<open>Modelled from the spec: the \<open>Language\<close> enumeration is the splitter library's; the
  specification (section 9) names it a closed variant \<open>Python, Go, ...\<close>.\<close>

datatype Language = PYTHON | GO | OTHER_LANGUAGE string

record document =
  page_content :: string
  metadata :: "(string \<times> string) list"

text \<open>An embedding is a vector of floats; the pipeline only transports it.\<close>

type_synonym vector = "real list"

text \<open>A directory that may hold cache entries: unwritable, or writable with its entries
  (key to stored vector; the serialisation to bytes round-trips and is left out).\<close>

datatype dir_state = Unwritable | Writable "string \<Rightarrow> vector option"

datatype embedder = Underlying | CacheBacked string string

datatype lib_call =
    Call_LocalFileStore string
  | Call_GPT4AllEmbeddings
  | Call_from_bytes_store string string
  | Call_Chroma_from_documents embedder

datatype log_call = BasicConfig string | Info string | Error string

record world =
  heap :: "pyobj list"
  disk :: "string \<Rightarrow> dir_state"
  model_calls :: "string list"
  lib_calls :: "lib_call list"
  log_calls :: "log_call list"

text \<open>The external collaborators, which the specification (section 1) treats as black
  boxes: the loader, the splitter, the embedding model (its constructor and its
  per-text function) and the key derivation of the cache.\<close>

record env =
  loader_load :: "string \<Rightarrow> string \<Rightarrow> string list \<Rightarrow> string list \<Rightarrow> Language \<Rightarrow> int
                    \<Rightarrow> exn + document list"
  splitter_split :: "Language \<Rightarrow> int \<Rightarrow> int \<Rightarrow> document list \<Rightarrow> exn + document list"
  model_init :: "exn option"
  model_embed :: "string \<Rightarrow> exn + vector"
  key_derive :: "string \<Rightarrow> string \<Rightarrow> string"

subsection \<open>Python's heap, logging and path operations\<close>

definition alloc :: "pyobj \<Rightarrow> world \<Rightarrow> addr \<times> world" where
  "alloc obj w = (length (heap w), w\<lparr>heap := heap w @ [obj]\<rparr>)"

definition get_list :: "world \<Rightarrow> addr \<Rightarrow> string list" where
  "get_list w a =
     (if a < length (heap w) then (case heap w ! a of PyList xs \<Rightarrow> xs | PyDict _ \<Rightarrow> [])
      else [])"

definition get_dict :: "world \<Rightarrow> addr \<Rightarrow> (string \<times> int) list" where
  "get_dict w a =
     (if a < length (heap w) then (case heap w ! a of PyDict kvs \<Rightarrow> kvs | PyList _ \<Rightarrow> [])
      else [])"

text \<open>\<open>xs.append(x)\<close> and \<open>d[k] = v\<close>, on the object at an address.\<close>

definition list_append :: "addr \<Rightarrow> string \<Rightarrow> world \<Rightarrow> world" where
  "list_append a x w =
     (if a < length (heap w) then
        (case heap w ! a of
           PyList xs \<Rightarrow> w\<lparr>heap := (heap w)[a := PyList (xs @ [x])]\<rparr>
         | PyDict _ \<Rightarrow> w)
      else w)"

definition dict_setitem :: "addr \<Rightarrow> string \<Rightarrow> int \<Rightarrow> world \<Rightarrow> world" where
  "dict_setitem a k v w =
     (if a < length (heap w) then
        (case heap w ! a of
           PyDict kvs \<Rightarrow>
             w\<lparr>heap := (heap w)[a := PyDict (if k \<in> fst ` set kvs
                                               then map (\<lambda>(k', v'). if k' = k then (k', v) else (k', v')) kvs
                                               else kvs @ [(k, v)])]\<rparr>
         | PyList _ \<Rightarrow> w)
      else w)"

definition logging_basicConfig :: "string \<Rightarrow> world \<Rightarrow> world" where
  "logging_basicConfig level w = w\<lparr>log_calls := log_calls w @ [BasicConfig level]\<rparr>"

definition logging_info :: "string \<Rightarrow> world \<Rightarrow> world" where
  "logging_info msg w = w\<lparr>log_calls := log_calls w @ [Info msg]\<rparr>"

definition logging_error :: "string \<Rightarrow> world \<Rightarrow> world" where
  "logging_error msg w = w\<lparr>log_calls := log_calls w @ [Error msg]\<rparr>"

definition digit_char :: "nat \<Rightarrow> char" where
  "digit_char n = ''0123456789'' ! (n mod 10)"

function str_nat :: "nat \<Rightarrow> string" where
  "str_nat n = (if n < 10 then [digit_char n] else str_nat (n div 10) @ [digit_char n])"
  by pat_completeness auto
termination
  by (relation "measure id") auto

declare str_nat.simps [simp del]

text \<open>\<open>os.path.join(a, b)\<close> on a POSIX system.\<close>

definition os_path_join :: "string \<Rightarrow> string \<Rightarrow> string" where
  "os_path_join a b =
     (if b \<noteq> [] \<and> hd b = CHR ''/'' then b
      else if a = [] \<or> last a = CHR ''/'' then a @ b
      else a @ ''/'' @ b)"

subsection \<open>The class and its constructor\<close>

record EmbedManager =
  path :: string
  glob_rule :: string
  suffixes :: addr
  exclude :: addr
  language :: Language
  parser_threshold :: int
  logging_level :: "string option"
  chunk_size :: int
  chunk_overlap :: int
  cache_dir :: string
  namespace_cache :: string
  search_type :: string
  search_kwargs :: addr
  use_cache :: bool

text \<open>Python evaluates the default expressions of \<open>__init__\<close> once, when the \<open>def\<close>
  statement runs at import: \<open>os.getcwd()\<close> twice, the two list displays and the dict
  display. The objects made then are the defaults of every later call.\<close>

record defaults =
  d_path :: string
  d_suffixes :: addr
  d_exclude :: addr
  d_cache_dir :: string
  d_search_kwargs :: addr

definition import_module :: "string \<Rightarrow> world \<Rightarrow> defaults \<times> world" where
  "import_module cwd w =
     (let (a1, w1) = alloc (PyList [''.py'']) w;
          (a2, w2) = alloc (PyList [''**/non-utf8-encoding.py'']) w1;
          (a3, w3) = alloc (PyDict [(''k'', 8)]) w2
      in (\<lparr>d_path = cwd, d_suffixes = a1, d_exclude = a2,
           d_cache_dir = os_path_join cwd ''cache'', d_search_kwargs = a3\<rparr>, w3))"

text \<open>The keyword arguments of a constructor call: \<open>None\<close> where the caller leaves the
  argument out. (\<open>logging_level\<close> defaults to Python's \<open>None\<close>, so leaving it out and
  passing \<open>None\<close> are the same call.)\<close>

record init_kwargs =
  kw_path :: "string option"
  kw_glob_rule :: "string option"
  kw_suffixes :: "addr option"
  kw_exclude :: "addr option"
  kw_language :: "Language option"
  kw_parser_threshold :: "int option"
  kw_logging_level :: "string option"
  kw_chunk_size :: "int option"
  kw_chunk_overlap :: "int option"
  kw_cache_dir :: "string option"
  kw_namespace_cache :: "string option"
  kw_search_type :: "string option"
  kw_search_kwargs :: "addr option"
  kw_use_cache :: "bool option"

definition no_kwargs :: init_kwargs where
  "no_kwargs =
     \<lparr>kw_path = None, kw_glob_rule = None, kw_suffixes = None, kw_exclude = None,
      kw_language = None, kw_parser_threshold = None, kw_logging_level = None,
      kw_chunk_size = None, kw_chunk_overlap = None, kw_cache_dir = None,
      kw_namespace_cache = None, kw_search_type = None, kw_search_kwargs = None,
      kw_use_cache = None\<rparr>"

definition kwarg :: "'a option \<Rightarrow> 'a \<Rightarrow> 'a" where
  "kwarg given dflt = (case given of None \<Rightarrow> dflt | Some v \<Rightarrow> v)"

definition EmbedManager_init :: "defaults \<Rightarrow> init_kwargs \<Rightarrow> world \<Rightarrow> EmbedManager \<times> world" where
  "EmbedManager_init d kw w =
     (let self =
        \<lparr>path = kwarg (kw_path kw) (d_path d),
         glob_rule = kwarg (kw_glob_rule kw) ''**/*'',
         suffixes = kwarg (kw_suffixes kw) (d_suffixes d),
         exclude = kwarg (kw_exclude kw) (d_exclude d),
         language = kwarg (kw_language kw) PYTHON,
         parser_threshold = kwarg (kw_parser_threshold kw) 500,
         logging_level = kw_logging_level kw,
         chunk_size = kwarg (kw_chunk_size kw) 2000,
         chunk_overlap = kwarg (kw_chunk_overlap kw) 200,
         cache_dir = kwarg (kw_cache_dir kw) (d_cache_dir d),
         namespace_cache = kwarg (kw_namespace_cache kw) ''cache_embeddings'',
         search_type = kwarg (kw_search_type kw) ''mmr'',
         search_kwargs = kwarg (kw_search_kwargs kw) (d_search_kwargs d),
         use_cache = kwarg (kw_use_cache kw) True\<rparr>
      in (case kw_logging_level kw of
            None \<Rightarrow> (self, w)
          | Some level \<Rightarrow> (self, if level \<noteq> [] then logging_basicConfig level w else w)))"

subsection \<open>Loading and splitting\<close>

definition load_documents :: "env \<Rightarrow> EmbedManager \<Rightarrow> world \<Rightarrow> (exn + document list) \<times> world" where
  "load_documents E self w =
     (case loader_load E (path self) (glob_rule self) (get_list w (suffixes self))
             (get_list w (exclude self)) (language self) (parser_threshold self) of
        Inl e \<Rightarrow> (Inl e, w)
      | Inr documents \<Rightarrow>
          (Inr documents,
           logging_info (''Loaded '' @ str_nat (length documents) @ '' documents'') w))"

definition split_documents ::
  "env \<Rightarrow> EmbedManager \<Rightarrow> document list \<Rightarrow> world \<Rightarrow> (exn + document list) \<times> world" where
  "split_documents E self documents w =
     (case splitter_split E (language self) (chunk_size self) (chunk_overlap self) documents of
        Inl e \<Rightarrow> (Inl e, w)
      | Inr texts \<Rightarrow>
          (Inr texts,
           logging_info (''Split into '' @ str_nat (length texts) @ '' text chunks'') w))"

subsection \<open>The library classes behind the embedding stage\<close>

text \<open>Modelled from the spec: the code of the byte store (\<open>LocalFileStore\<close>) is not in
  the repository. Section 4.2: a durable store of entries by key under a directory; an
  unwritable storage path is fatal when the store is constructed. The store's handle is
  its directory path.\<close>

definition LocalFileStore :: "string \<Rightarrow> world \<Rightarrow> (exn + string) \<times> world" where
  "LocalFileStore dir w =
     (let w' = w\<lparr>lib_calls := lib_calls w @ [Call_LocalFileStore dir]\<rparr>
      in case disk w dir of
           Unwritable \<Rightarrow> (Inl (ConfigurationError dir), w')
         | Writable _ \<Rightarrow> (Inr dir, w'))"

text \<open>Modelled from the spec: \<open>get\<close>, \<open>exists\<close> and \<open>put\<close> of the byte store, whose code is not
  in the repository (section 4.2). By section 7 a failed read counts as a miss and a
  failed write does not fail the call; the only failure modelled is the directory that
  cannot be written (no transient I/O error).\<close>

definition store_get :: "world \<Rightarrow> string \<Rightarrow> string \<Rightarrow> vector option" where
  "store_get w dir key = (case disk w dir of Unwritable \<Rightarrow> None | Writable m \<Rightarrow> m key)"

text \<open>Modelled from the spec: \<open>exists(key)\<close> of the byte store (section 4.2).\<close>

definition store_exists :: "world \<Rightarrow> string \<Rightarrow> string \<Rightarrow> bool" where
  "store_exists w dir key = (store_get w dir key \<noteq> None)"

text \<open>Modelled from the spec: \<open>put(key, bytes)\<close> of the byte store (section 4.2).\<close>

definition store_put :: "string \<Rightarrow> string \<Rightarrow> vector \<Rightarrow> world \<Rightarrow> world" where
  "store_put dir key v w =
     (case disk w dir of
        Unwritable \<Rightarrow> w
      | Writable m \<Rightarrow> w\<lparr>disk := (disk w)(dir := Writable (m(key \<mapsto> v)))\<rparr>)"

text \<open>Modelled from the spec: the writes of one batch, entry by entry (section 4.3,
  step 4).\<close>

fun store_put_all :: "string \<Rightarrow> (string \<times> vector) list \<Rightarrow> world \<Rightarrow> world" where
  "store_put_all dir [] w = w"
| "store_put_all dir ((key, v) # kvs) w = store_put_all dir kvs (store_put dir key v w)"

text \<open>Modelled from the spec: the code of the embedding model (\<open>GPT4AllEmbeddings\<close>) is
  not in the repository. Its constructor either raises or gives the model.\<close>

definition GPT4AllEmbeddings_new :: "env \<Rightarrow> world \<Rightarrow> (exn + embedder) \<times> world" where
  "GPT4AllEmbeddings_new E w =
     (let w' = w\<lparr>lib_calls := lib_calls w @ [Call_GPT4AllEmbeddings]\<rparr>
      in case model_init E of Some e \<Rightarrow> (Inl e, w') | None \<Rightarrow> (Inr Underlying, w'))"

text \<open>Modelled from the spec: \<open>embed(texts)\<close> of the embedding model, whose code is not
  in the repository. Section 6: one vector per text, from a black-box function of the
  text. Each text handed to the model is recorded in \<open>model_calls\<close>; the first failure
  fails the whole call (section 7).\<close>

fun model_embed_all :: "env \<Rightarrow> string list \<Rightarrow> world \<Rightarrow> (exn + vector list) \<times> world" where
  "model_embed_all E [] w = (Inr [], w)"
| "model_embed_all E (t # ts) w =
     (let w1 = w\<lparr>model_calls := model_calls w @ [t]\<rparr>
      in case model_embed E t of
           Inl e \<Rightarrow> (Inl e, w1)
         | Inr v \<Rightarrow>
             (case model_embed_all E ts w1 of
                (Inl e, w2) \<Rightarrow> (Inl e, w2)
              | (Inr vs, w2) \<Rightarrow> (Inr (v # vs), w2)))"

text \<open>Modelled from the spec: the code of the cache-backed embedder
  (\<open>CacheBackedEmbeddings\<close>) is not in the repository. Its constructor wraps the
  underlying model (there is one, the environment's) with a store and a namespace.\<close>

definition from_bytes_store :: "embedder \<Rightarrow> string \<Rightarrow> string \<Rightarrow> world \<Rightarrow> (exn + embedder) \<times> world" where
  "from_bytes_store underlying_embeddings document_embedding_cache namespace w =
     (Inr (CacheBacked document_embedding_cache namespace),
      w\<lparr>lib_calls := lib_calls w @ [Call_from_bytes_store document_embedding_cache namespace]\<rparr>)"

text \<open>Modelled from the spec: the misses of a call of the cache-backed embedder, whose
  code is not in the repository. Section 4.3, steps 1 and 2 and the edge cases: the
  texts whose key, derived under the namespace, the store lacks, with duplicates
  removed.\<close>

definition uncached_texts :: "env \<Rightarrow> string \<Rightarrow> string \<Rightarrow> string list \<Rightarrow> world \<Rightarrow> string list" where
  "uncached_texts E dir ns texts w =
     remdups (filter (\<lambda>t. \<not> store_exists w dir (key_derive E ns t)) texts)"

text \<open>Modelled from the spec: \<open>embed_many\<close> of the cache-backed embedder, whose code is
  not in the repository. Section 4.3: the misses go to the underlying model in one
  batch (step 3); every new vector is written to the store before the call returns
  (step 4); the result is in input order, a hit read from the store and a miss taken
  from the batch (steps 5 and 6). When the model raises, the call fails with nothing
  written. With no miss the model is not called.\<close>

definition embed_many ::
  "env \<Rightarrow> string \<Rightarrow> string \<Rightarrow> string list \<Rightarrow> world \<Rightarrow> (exn + vector list) \<times> world" where
  "embed_many E dir ns texts w =
     (let uncached = uncached_texts E dir ns texts w
      in case (if uncached = [] then (Inr [], w) else model_embed_all E uncached w) of
           (Inl e, w1) \<Rightarrow> (Inl e, w1)
         | (Inr vectors, w1) \<Rightarrow>
             (let computed = zip uncached vectors;
                  w2 = store_put_all dir (map (\<lambda>(t, v). (key_derive E ns t, v)) computed) w1
              in (Inr (map (\<lambda>t. case store_get w dir (key_derive E ns t) of
                                   Some v \<Rightarrow> v
                                 | None \<Rightarrow> (case map_of computed t of Some v \<Rightarrow> v | None \<Rightarrow> []))
                         texts),
                  w2)))"

text \<open>Modelled from the spec: what embedding a list of texts means for each of the
  two embedders (the library's method dispatch, whose code is not in the repository).\<close>

fun embed_documents :: "env \<Rightarrow> embedder \<Rightarrow> string list \<Rightarrow> world \<Rightarrow> (exn + vector list) \<times> world" where
  "embed_documents E Underlying texts w = model_embed_all E texts w"
| "embed_documents E (CacheBacked dir ns) texts w = embed_many E dir ns texts w"

text \<open>Modelled from the spec: the code of the vector index (\<open>Chroma\<close>) is not in the
  repository. Sections 3 and 4.5: the index is built once from the full chunk set, which
  goes through the embedder, and holds the (chunk, vector) pairs; the retriever over it
  carries the query settings it was made with.\<close>

record chroma =
  embedding_function :: embedder
  entries :: "(document \<times> vector) list"

record retriever =
  vectorstore :: chroma
  r_search_type :: string
  r_search_kwargs :: addr

text \<open>Modelled from the spec: building the index (\<open>Chroma.from_documents\<close>, whose code
  is not in the repository): the chunks' texts go through the embedder once, and the
  index holds the pairs (section 4.5, \<open>build\<close>).\<close>

definition Chroma_from_documents ::
  "env \<Rightarrow> document list \<Rightarrow> embedder \<Rightarrow> world \<Rightarrow> (exn + chroma) \<times> world" where
  "Chroma_from_documents E texts embedder w =
     (case embed_documents E embedder (map page_content texts)
             (w\<lparr>lib_calls := lib_calls w @ [Call_Chroma_from_documents embedder]\<rparr>) of
        (Inl e, w1) \<Rightarrow> (Inl e, w1)
      | (Inr vectors, w1) \<Rightarrow>
          (Inr \<lparr>embedding_function = embedder, entries = zip texts vectors\<rparr>, w1))"

text \<open>Modelled from the spec: the retriever over an index (\<open>as_retriever\<close>, whose code
  is not in the repository) records the query settings of section 6.\<close>

definition as_retriever :: "chroma \<Rightarrow> string \<Rightarrow> addr \<Rightarrow> retriever" where
  "as_retriever db st kw = \<lparr>vectorstore = db, r_search_type = st, r_search_kwargs = kw\<rparr>"

subsection \<open>Embedding and the whole run\<close>

text \<open>\<open>generate_embeddings(self, texts, use_cache=True)\<close>: the argument is \<open>None\<close> where
  the caller leaves it out.\<close>

definition generate_embeddings ::
  "env \<Rightarrow> EmbedManager \<Rightarrow> document list \<Rightarrow> bool option \<Rightarrow> world \<Rightarrow> (exn + retriever) \<times> world" where
  "generate_embeddings E self texts use_cache_arg w =
     (case (if kwarg use_cache_arg True then
              (case LocalFileStore (cache_dir self) w of
                 (Inl e, w1) \<Rightarrow> (Inl e, w1)
               | (Inr cache_store, w1) \<Rightarrow>
                   (case GPT4AllEmbeddings_new E w1 of
                      (Inl e, w2) \<Rightarrow> (Inl e, w2)
                    | (Inr underlying, w2) \<Rightarrow>
                        from_bytes_store underlying cache_store (namespace_cache self) w2))
            else GPT4AllEmbeddings_new E w) of
        (Inl e, w3) \<Rightarrow> (Inl e, w3)
      | (Inr embedder, w3) \<Rightarrow>
          (case Chroma_from_documents E texts embedder w3 of
             (Inl e, w4) \<Rightarrow> (Inl e, w4)
           | (Inr db, w4) \<Rightarrow>
               (Inr (as_retriever db (search_type self) (search_kwargs self)), w4)))"

text \<open>The body of the \<open>try\<close> block of \<open>run\<close>.\<close>

definition run_body :: "env \<Rightarrow> EmbedManager \<Rightarrow> world \<Rightarrow> (exn + retriever) \<times> world" where
  "run_body E self w =
     (case load_documents E self w of
        (Inl e, w1) \<Rightarrow> (Inl e, w1)
      | (Inr documents, w1) \<Rightarrow>
          (case split_documents E self documents w1 of
             (Inl e, w2) \<Rightarrow> (Inl e, w2)
           | (Inr texts, w2) \<Rightarrow> generate_embeddings E self texts (Some (use_cache self)) w2))"

definition run :: "env \<Rightarrow> EmbedManager \<Rightarrow> world \<Rightarrow> (exn + retriever) \<times> world" where
  "run E self w =
     (case run_body E self w of
        (Inl e, w') \<Rightarrow> (Inl e, logging_error (''An error occurred: '' @ exn_str e) w')
      | (Inr retriever, w') \<Rightarrow> (Inr retriever, w'))"

subsection \<open>Sequences of embedding calls\<close>


text \<open>The library calls that make a byte store or a cache-backed embedder, or hand one
  to the index.\<close>

fun is_cache_call :: "lib_call \<Rightarrow> bool" where
  "is_cache_call (Call_LocalFileStore dir) = True"
| "is_cache_call Call_GPT4AllEmbeddings = False"
| "is_cache_call (Call_from_bytes_store dir ns) = True"
| "is_cache_call (Call_Chroma_from_documents Underlying) = False"
| "is_cache_call (Call_Chroma_from_documents (CacheBacked dir ns)) = True"


subsection \<open>The setting of the repository's tests\<close>

text \<open>tests/test\_embed\_manager.py replaces the loader by one that returns two
  documents and the splitter by one that returns two chunks, whatever the
  configuration, and builds its instance as
  \<open>EmbedManager(path="test_path", use_cache=False)\<close>. The embedding model and the key
  derivation below are small stand-ins with which the stages can be evaluated.\<close>

definition doc :: "string \<Rightarrow> document" where
  "doc s = \<lparr>page_content = s, metadata = []\<rparr>"

definition test_env :: env where
  "test_env =
     \<lparr>loader_load = (\<lambda>p g sfx exc lang thr. Inr [doc ''doc1'', doc ''doc2'']),
      splitter_split = (\<lambda>lang size overlap documents. Inr [doc ''chunk1'', doc ''chunk2'']),
      model_init = None,
      model_embed = (\<lambda>t. Inr [real (length t)]),
      key_derive = (\<lambda>ns t. ns @ '':'' @ t)\<rparr>"

text \<open>The same setting with a collaborator that raises: the loader, the splitter, the
  embedding model.\<close>

definition failing_loader_env :: env where
  "failing_loader_env =
     test_env\<lparr>loader_load := (\<lambda>p g sfx exc lang thr. Inl (LoaderError ''no such directory''))\<rparr>"

definition failing_splitter_env :: env where
  "failing_splitter_env =
     test_env\<lparr>splitter_split := (\<lambda>lang size overlap documents. Inl (OtherException ''bad chunk''))\<rparr>"

definition failing_model_env :: env where
  "failing_model_env =
     test_env\<lparr>model_embed := (\<lambda>t. Inl (EmbeddingServiceError ''model unavailable''))\<rparr>"

definition fresh_world :: world where
  "fresh_world =
     \<lparr>heap = [], disk = (\<lambda>p. Writable (\<lambda>k. None)), model_calls = [], lib_calls = [],
      log_calls = []\<rparr>"

definition module_defaults :: defaults where
  "module_defaults = fst (import_module ''/srv/app'' fresh_world)"

definition loaded_world :: world where
  "loaded_world = snd (import_module ''/srv/app'' fresh_world)"

definition test_manager :: EmbedManager where
  "test_manager =
     fst (EmbedManager_init module_defaults
            (no_kwargs\<lparr>kw_path := Some ''test_path'', kw_use_cache := Some False\<rparr>) loaded_world)"

definition default_manager :: EmbedManager where
  "default_manager = fst (EmbedManager_init module_defaults no_kwargs loaded_world)"

text \<open>A second instance made with no arguments, after the first, and an instance whose
  overlap equals its chunk size.\<close>

definition second_default_manager :: EmbedManager where
  "second_default_manager =
     fst (EmbedManager_init module_defaults no_kwargs
            (snd (EmbedManager_init module_defaults no_kwargs loaded_world)))"

definition equal_overlap_manager :: EmbedManager where
  "equal_overlap_manager =
     fst (EmbedManager_init module_defaults
            (no_kwargs\<lparr>kw_chunk_size := Some 2000, kw_chunk_overlap := Some 2000\<rparr>) loaded_world)"


text \<open>The world after import, with a default cache directory that cannot be written.\<close>

definition readonly_world :: world where
  "readonly_world = loaded_world\<lparr>disk := (disk loaded_world)(''/srv/app/cache'' := Unwritable)\<rparr>"

section \<open>What each call leaves unchanged\<close>

lemma model_embed_all_frame:
  "model_embed_all E ts w = (res, w') \<Longrightarrow>
     heap w' = heap w \<and> disk w' = disk w \<and> lib_calls w' = lib_calls w \<and>
     log_calls w' = log_calls w"
proof (induction ts arbitrary: w res w')
  case Nil
  then show ?case by simp
next
  case (Cons t ts)
  let ?w1 = "w\<lparr>model_calls := model_calls w @ [t]\<rparr>"
  show ?case
  proof (cases "model_embed E t")
    case (Inl e)
    with Cons.prems show ?thesis by (auto simp: Let_def)
  next
    case (Inr v)
    obtain res1 w2 where rest: "model_embed_all E ts ?w1 = (res1, w2)"
      by (cases "model_embed_all E ts ?w1") auto
    have "w' = w2"
      using Cons.prems Inr rest by (cases res1) (simp_all add: Let_def)
    then show ?thesis
      using Cons.IH [OF rest] by simp
  qed
qed

lemma model_embed_all_success:
  "model_embed_all E ts w = (Inr vs, w') \<Longrightarrow>
     model_calls w' = model_calls w @ ts \<and> length vs = length ts"
  by (induction ts arbitrary: w vs) (auto simp: Let_def split: sum.splits prod.splits)

lemma world_swap:
  "w\<lparr>disk := dk, model_calls := mc\<rparr> = w\<lparr>model_calls := mc, disk := dk\<rparr>"
  "w\<lparr>disk := dk, lib_calls := lc\<rparr> = w\<lparr>lib_calls := lc, disk := dk\<rparr>"
  by (cases w; simp)+

lemma model_embed_all_disk:
  "model_embed_all E ts w = (res, w') \<Longrightarrow>
     model_embed_all E ts (w\<lparr>disk := dk\<rparr>) = (res, w'\<lparr>disk := dk\<rparr>)"
proof (induction ts arbitrary: w res w')
  case Nil
  then show ?case by auto
next
  case (Cons t ts)
  let ?w1 = "w\<lparr>model_calls := model_calls w @ [t]\<rparr>"
  show ?case
  proof (cases "model_embed E t")
    case (Inl e)
    with Cons.prems show ?thesis by (auto simp: Let_def world_swap)
  next
    case (Inr v)
    obtain res1 w2 where rest: "model_embed_all E ts ?w1 = (res1, w2)"
      by (cases "model_embed_all E ts ?w1") auto
    have moved: "model_embed_all E ts (?w1\<lparr>disk := dk\<rparr>) = (res1, w2\<lparr>disk := dk\<rparr>)"
      by (rule Cons.IH [OF rest])
    have eq: "w\<lparr>disk := dk, model_calls := model_calls w @ [t]\<rparr> = ?w1\<lparr>disk := dk\<rparr>"
      by (cases w) simp
    show ?thesis
      using Cons.prems Inr rest moved by (cases res1) (auto simp: Let_def eq)
  qed
qed

lemma store_put_frame:
  "heap (store_put d k v w) = heap w \<and> model_calls (store_put d k v w) = model_calls w \<and>
   lib_calls (store_put d k v w) = lib_calls w \<and> log_calls (store_put d k v w) = log_calls w"
  by (simp add: store_put_def split: dir_state.splits)

lemma store_put_all_frame:
  "heap (store_put_all d kvs w) = heap w \<and> model_calls (store_put_all d kvs w) = model_calls w \<and>
   lib_calls (store_put_all d kvs w) = lib_calls w \<and> log_calls (store_put_all d kvs w) = log_calls w"
  by (induction kvs arbitrary: w) (auto simp: store_put_frame)

lemma embed_many_frame:
  assumes "embed_many E d ns ts w = (res, w')"
  shows "heap w' = heap w \<and> lib_calls w' = lib_calls w \<and> log_calls w' = log_calls w"
proof (cases "uncached_texts E d ns ts w = []")
  case True
  with assms show ?thesis
    by (auto simp: embed_many_def Let_def)
next
  case False
  obtain res1 w1 where m: "model_embed_all E (uncached_texts E d ns ts w) w = (res1, w1)"
    by (cases "model_embed_all E (uncached_texts E d ns ts w) w") auto
  have f: "heap w1 = heap w \<and> lib_calls w1 = lib_calls w \<and> log_calls w1 = log_calls w"
    using model_embed_all_frame [OF m] by simp
  show ?thesis
    using assms False m f by (cases res1) (auto simp: embed_many_def Let_def store_put_all_frame)
qed

lemma embed_documents_frame:
  "embed_documents E emb ts w = (res, w') \<Longrightarrow>
     heap w' = heap w \<and> lib_calls w' = lib_calls w \<and> log_calls w' = log_calls w"
  by (cases emb) (auto dest: model_embed_all_frame embed_many_frame)

lemma Chroma_from_documents_frame:
  assumes "Chroma_from_documents E texts emb w = (res, w')"
  shows "heap w' = heap w \<and> log_calls w' = log_calls w \<and>
         lib_calls w' = lib_calls w @ [Call_Chroma_from_documents emb]"
proof -
  let ?w0 = "w\<lparr>lib_calls := lib_calls w @ [Call_Chroma_from_documents emb]\<rparr>"
  obtain res1 w1 where e: "embed_documents E emb (map page_content texts) ?w0 = (res1, w1)"
    by (cases "embed_documents E emb (map page_content texts) ?w0") auto
  have "w' = w1"
    using assms e by (cases res1) (auto simp: Chroma_from_documents_def)
  then show ?thesis
    using embed_documents_frame [OF e] by simp
qed

lemma generate_embeddings_without_cache:
  "generate_embeddings E m texts (Some False) w =
     (case model_init E of
        Some e \<Rightarrow> (Inl e, w\<lparr>lib_calls := lib_calls w @ [Call_GPT4AllEmbeddings]\<rparr>)
      | None \<Rightarrow>
          (case model_embed_all E (map page_content texts)
                  (w\<lparr>lib_calls := lib_calls w @ [Call_GPT4AllEmbeddings, Call_Chroma_from_documents Underlying]\<rparr>) of
             (Inl e, w1) \<Rightarrow> (Inl e, w1)
           | (Inr vectors, w1) \<Rightarrow>
               (Inr (as_retriever \<lparr>embedding_function = Underlying, entries = zip texts vectors\<rparr>
                      (search_type m) (search_kwargs m)), w1)))"
  by (simp add: generate_embeddings_def kwarg_def GPT4AllEmbeddings_new_def
      Chroma_from_documents_def Let_def split: option.splits prod.splits sum.splits)

lemma generate_embeddings_with_cache:
  "generate_embeddings E m texts (Some True) w =
     (case disk w (cache_dir m) of
        Unwritable \<Rightarrow>
          (Inl (ConfigurationError (cache_dir m)),
           w\<lparr>lib_calls := lib_calls w @ [Call_LocalFileStore (cache_dir m)]\<rparr>)
      | Writable entries0 \<Rightarrow>
          (case model_init E of
             Some e \<Rightarrow>
               (Inl e, w\<lparr>lib_calls := lib_calls w @
                          [Call_LocalFileStore (cache_dir m), Call_GPT4AllEmbeddings]\<rparr>)
           | None \<Rightarrow>
               (case embed_many E (cache_dir m) (namespace_cache m) (map page_content texts)
                       (w\<lparr>lib_calls := lib_calls w @
                            [Call_LocalFileStore (cache_dir m), Call_GPT4AllEmbeddings,
                             Call_from_bytes_store (cache_dir m) (namespace_cache m),
                             Call_Chroma_from_documents
                               (CacheBacked (cache_dir m) (namespace_cache m))]\<rparr>) of
                  (Inl e, w1) \<Rightarrow> (Inl e, w1)
                | (Inr vectors, w1) \<Rightarrow>
                    (Inr (as_retriever
                           \<lparr>embedding_function = CacheBacked (cache_dir m) (namespace_cache m),
                            entries = zip texts vectors\<rparr>
                           (search_type m) (search_kwargs m)), w1))))"
proof (cases "disk w (cache_dir m)")
  case Unwritable
  then show ?thesis
    by (simp add: generate_embeddings_def kwarg_def LocalFileStore_def Let_def)
next
  case (Writable entries0)
  show ?thesis
  proof (cases "model_init E")
    case (Some e)
    with Writable show ?thesis
      by (simp add: generate_embeddings_def kwarg_def LocalFileStore_def
          GPT4AllEmbeddings_new_def Let_def)
  next
    case None
    let ?w0 = "w\<lparr>lib_calls := lib_calls w @
                 [Call_LocalFileStore (cache_dir m), Call_GPT4AllEmbeddings,
                  Call_from_bytes_store (cache_dir m) (namespace_cache m),
                  Call_Chroma_from_documents (CacheBacked (cache_dir m) (namespace_cache m))]\<rparr>"
    obtain res w1 where
      e: "embed_many E (cache_dir m) (namespace_cache m) (map page_content texts) ?w0 = (res, w1)"
      by (cases "embed_many E (cache_dir m) (namespace_cache m) (map page_content texts) ?w0") auto
    show ?thesis
      using Writable None e
      by (cases res)
         (simp_all add: generate_embeddings_def kwarg_def LocalFileStore_def
            GPT4AllEmbeddings_new_def from_bytes_store_def Chroma_from_documents_def Let_def)
  qed
qed

lemma generate_embeddings_default:
  "generate_embeddings E m texts None w = generate_embeddings E m texts (Some True) w"
  by (simp add: generate_embeddings_def kwarg_def)

lemma kwarg_simps: "kwarg None dflt = dflt" "kwarg (Some v) dflt = v"
  by (simp_all add: kwarg_def)

lemma EmbedManager_init_fields:
  "suffixes (fst (EmbedManager_init d kw w)) = kwarg (kw_suffixes kw) (d_suffixes d)"
  "exclude (fst (EmbedManager_init d kw w)) = kwarg (kw_exclude kw) (d_exclude d)"
  "search_kwargs (fst (EmbedManager_init d kw w)) = kwarg (kw_search_kwargs kw) (d_search_kwargs d)"
  "search_type (fst (EmbedManager_init d kw w)) = kwarg (kw_search_type kw) ''mmr''"
  "chunk_size (fst (EmbedManager_init d kw w)) = kwarg (kw_chunk_size kw) 2000"
  "chunk_overlap (fst (EmbedManager_init d kw w)) = kwarg (kw_chunk_overlap kw) 200"
  "use_cache (fst (EmbedManager_init d kw w)) = kwarg (kw_use_cache kw) True"
  by (simp_all add: EmbedManager_init_def Let_def split: option.splits)

lemma EmbedManager_init_world:
  "heap (snd (EmbedManager_init d kw w)) = heap w \<and>
   disk (snd (EmbedManager_init d kw w)) = disk w \<and>
   model_calls (snd (EmbedManager_init d kw w)) = model_calls w \<and>
   lib_calls (snd (EmbedManager_init d kw w)) = lib_calls w"
  by (simp add: EmbedManager_init_def logging_basicConfig_def Let_def split: option.splits)


lemma get_list_heap: "heap w' = heap w \<Longrightarrow> get_list w' a = get_list w a"
  by (simp add: get_list_def)

lemma generate_embeddings_frame:
  assumes "generate_embeddings E m texts uc w = (res, w')"
  shows "heap w' = heap w \<and> log_calls w' = log_calls w"
proof (cases "kwarg uc True")
  case True
  then have g: "generate_embeddings E m texts (Some True) w = (res, w')"
    using assms by (simp add: generate_embeddings_def kwarg_def)
  show ?thesis
  proof (cases "disk w (cache_dir m)")
    case Unwritable
    with g show ?thesis by (auto simp: generate_embeddings_with_cache)
  next
    case (Writable entries0)
    show ?thesis
    proof (cases "model_init E")
      case (Some e)
      with g Writable show ?thesis by (auto simp: generate_embeddings_with_cache)
    next
      case None
      let ?w0 = "w\<lparr>lib_calls := lib_calls w @
                 [Call_LocalFileStore (cache_dir m), Call_GPT4AllEmbeddings,
                  Call_from_bytes_store (cache_dir m) (namespace_cache m),
                  Call_Chroma_from_documents (CacheBacked (cache_dir m) (namespace_cache m))]\<rparr>"
      obtain res1 w1 where
        e: "embed_many E (cache_dir m) (namespace_cache m) (map page_content texts) ?w0 = (res1, w1)"
        by (cases "embed_many E (cache_dir m) (namespace_cache m) (map page_content texts) ?w0") auto
      have "w' = w1"
        using g Writable None e by (cases res1) (auto simp: generate_embeddings_with_cache)
      then show ?thesis
        using embed_many_frame [OF e] by simp
    qed
  qed
next
  case False
  then have g: "generate_embeddings E m texts (Some False) w = (res, w')"
    using assms by (simp add: generate_embeddings_def kwarg_def)
  show ?thesis
  proof (cases "model_init E")
    case (Some e)
    with g show ?thesis by (auto simp: generate_embeddings_without_cache)
  next
    case None
    let ?w0 = "w\<lparr>lib_calls := lib_calls w @ [Call_GPT4AllEmbeddings, Call_Chroma_from_documents Underlying]\<rparr>"
    obtain res1 w1 where e: "model_embed_all E (map page_content texts) ?w0 = (res1, w1)"
      by (cases "model_embed_all E (map page_content texts) ?w0") auto
    have "w' = w1"
      using g None e by (cases res1) (auto simp: generate_embeddings_without_cache)
    then show ?thesis
      using model_embed_all_frame [OF e] by simp
  qed
qed

lemma load_documents_frame:
  "load_documents E m w = (res, w') \<Longrightarrow>
     heap w' = heap w \<and> disk w' = disk w \<and> model_calls w' = model_calls w \<and>
     lib_calls w' = lib_calls w"
  by (auto simp: load_documents_def logging_info_def split: sum.splits)

lemma split_documents_frame:
  "split_documents E m documents w = (res, w') \<Longrightarrow>
     heap w' = heap w \<and> disk w' = disk w \<and> model_calls w' = model_calls w \<and>
     lib_calls w' = lib_calls w"
  by (auto simp: split_documents_def logging_info_def split: sum.splits)






lemma generate_embeddings_flag:
  "generate_embeddings E (m\<lparr>use_cache := b\<rparr>) texts uc w = generate_embeddings E m texts uc w"
  by (simp add: generate_embeddings_def cong: prod.case_cong sum.case_cong if_cong)

lemma generate_embeddings_with_cache_calls:
  assumes "generate_embeddings E m texts (Some True) w = (res, w')"
  shows "\<exists>rest. lib_calls w' = lib_calls w @ Call_LocalFileStore (cache_dir m) # rest"
proof (cases "disk w (cache_dir m)")
  case Unwritable
  with assms show ?thesis by (auto simp: generate_embeddings_with_cache)
next
  case (Writable entries0)
  show ?thesis
  proof (cases "model_init E")
    case (Some e)
    with assms Writable show ?thesis by (auto simp: generate_embeddings_with_cache)
  next
    case None
    let ?w0 = "w\<lparr>lib_calls := lib_calls w @
                 [Call_LocalFileStore (cache_dir m), Call_GPT4AllEmbeddings,
                  Call_from_bytes_store (cache_dir m) (namespace_cache m),
                  Call_Chroma_from_documents (CacheBacked (cache_dir m) (namespace_cache m))]\<rparr>"
    obtain res1 w1 where
      e: "embed_many E (cache_dir m) (namespace_cache m) (map page_content texts) ?w0 = (res1, w1)"
      by (cases "embed_many E (cache_dir m) (namespace_cache m) (map page_content texts) ?w0") auto
    have "w' = w1"
      using assms Writable None e by (cases res1) (auto simp: generate_embeddings_with_cache)
    then show ?thesis
      using embed_many_frame [OF e] by simp
  qed
qed

lemma generate_embeddings_without_cache_calls:
  assumes "generate_embeddings E m texts (Some False) w = (res, w')"
  shows "filter is_cache_call (lib_calls w') = filter is_cache_call (lib_calls w)"
proof (cases "model_init E")
  case (Some e)
  with assms show ?thesis by (auto simp: generate_embeddings_without_cache)
next
  case None
  let ?w0 = "w\<lparr>lib_calls := lib_calls w @ [Call_GPT4AllEmbeddings, Call_Chroma_from_documents Underlying]\<rparr>"
  obtain res1 w1 where e: "model_embed_all E (map page_content texts) ?w0 = (res1, w1)"
    by (cases "model_embed_all E (map page_content texts) ?w0") auto
  have "w' = w1"
    using assms None e by (cases res1) (auto simp: generate_embeddings_without_cache)
  then show ?thesis
    using model_embed_all_frame [OF e] by simp
qed

lemma run_body_without_cache_calls:
  assumes "run_body E m w = (res, w')" and "use_cache m = False"
  shows "filter is_cache_call (lib_calls w') = filter is_cache_call (lib_calls w)"
proof -
  obtain res1 w1 where l: "load_documents E m w = (res1, w1)"
    by (cases "load_documents E m w") auto
  have f1: "lib_calls w1 = lib_calls w" using load_documents_frame [OF l] by simp
  show ?thesis
  proof (cases res1)
    case (Inl e)
    with assms l f1 show ?thesis by (auto simp: run_body_def)
  next
    case (Inr documents)
    obtain res2 w2 where s: "split_documents E m documents w1 = (res2, w2)"
      by (cases "split_documents E m documents w1") auto
    have f2: "lib_calls w2 = lib_calls w" using split_documents_frame [OF s] f1 by simp
    show ?thesis
    proof (cases res2)
      case (Inl e)
      with assms l Inr s f2 show ?thesis by (auto simp: run_body_def)
    next
      case texts: (Inr texts)
      have "generate_embeddings E m texts (Some False) w2 = (res, w')"
        using assms l Inr s texts by (simp add: run_body_def)
      then show ?thesis
        using generate_embeddings_without_cache_calls f2 by metis
    qed
  qed
qed

lemma run_lib_calls:
  "lib_calls (snd (run E m w)) = lib_calls (snd (run_body E m w))"
  by (simp add: run_def logging_error_def split: prod.splits sum.splits)

lemma list_append_same:
  "a < length (heap w) \<Longrightarrow> heap w ! a = PyList xs \<Longrightarrow> get_list (list_append a x w) a = xs @ [x]"
  by (simp add: list_append_def get_list_def)

lemma list_append_other:
  "a \<noteq> b \<Longrightarrow> get_list (list_append a x w) b = get_list w b"
  by (auto simp: list_append_def get_list_def split: pyobj.splits)

lemma dict_setitem_other:
  "a \<noteq> b \<Longrightarrow> get_dict (dict_setitem a k v w) b = get_dict w b"
  by (auto simp: dict_setitem_def get_dict_def split: pyobj.splits)

lemma run_heap: "heap (snd (run E m w)) = heap w"
proof -
  obtain res1 w1 where l: "load_documents E m w = (res1, w1)"
    by (cases "load_documents E m w") auto
  have h1: "heap w1 = heap w" using load_documents_frame [OF l] by simp
  show ?thesis
  proof (cases res1)
    case (Inl e)
    with l h1 show ?thesis by (simp add: run_def run_body_def logging_error_def)
  next
    case (Inr documents)
    obtain res2 w2 where s: "split_documents E m documents w1 = (res2, w2)"
      by (cases "split_documents E m documents w1") auto
    have h2: "heap w2 = heap w" using split_documents_frame [OF s] h1 by simp
    show ?thesis
    proof (cases res2)
      case (Inl e)
      with l Inr s h2 show ?thesis by (simp add: run_def run_body_def logging_error_def)
    next
      case texts: (Inr texts)
      obtain res3 w3 where g: "generate_embeddings E m texts (Some (use_cache m)) w2 = (res3, w3)"
        by (cases "generate_embeddings E m texts (Some (use_cache m)) w2") auto
      have h3: "heap w3 = heap w" using generate_embeddings_frame [OF g] h2 by simp
      show ?thesis
        using l Inr s texts g h3
        by (cases res3) (simp_all add: run_def run_body_def logging_error_def)
    qed
  qed
qed

lemma generate_embeddings_heap: "heap (snd (generate_embeddings E m texts uc w)) = heap w"
  using generate_embeddings_frame [of E m texts uc w] by (metis prod.collapse)

section \<open>What a cached call adds to the store and to the model's history\<close>














section \<open>The tests' setting, evaluated\<close>

lemma str_nat_digit: "n < 10 \<Longrightarrow> str_nat n = [digit_char n]"
  by (simp add: str_nat.simps)

lemma module_defaults_value:
  "module_defaults =
     \<lparr>d_path = ''/srv/app'', d_suffixes = 0, d_exclude = 1,
      d_cache_dir = ''/srv/app/cache'', d_search_kwargs = 2\<rparr>"
  by (simp add: module_defaults_def import_module_def alloc_def fresh_world_def os_path_join_def)

lemma loaded_world_value:
  "loaded_world =
     \<lparr>heap = [PyList [''.py''], PyList [''**/non-utf8-encoding.py''], PyDict [(''k'', 8)]],
      disk = (\<lambda>p. Writable (\<lambda>k. None)), model_calls = [], lib_calls = [], log_calls = []\<rparr>"
  by (simp add: loaded_world_def import_module_def alloc_def fresh_world_def)

lemma test_manager_value:
  "test_manager =
     \<lparr>path = ''test_path'', glob_rule = ''**/*'', suffixes = 0, exclude = 1,
      language = PYTHON, parser_threshold = 500, logging_level = None,
      chunk_size = 2000, chunk_overlap = 200, cache_dir = ''/srv/app/cache'',
      namespace_cache = ''cache_embeddings'', search_type = ''mmr'',
      search_kwargs = 2, use_cache = False\<rparr>"
  by (simp add: test_manager_def EmbedManager_init_def no_kwargs_def kwarg_def module_defaults_value)

lemma default_manager_value:
  "default_manager =
     \<lparr>path = ''/srv/app'', glob_rule = ''**/*'', suffixes = 0, exclude = 1,
      language = PYTHON, parser_threshold = 500, logging_level = None,
      chunk_size = 2000, chunk_overlap = 200, cache_dir = ''/srv/app/cache'',
      namespace_cache = ''cache_embeddings'', search_type = ''mmr'',
      search_kwargs = 2, use_cache = True\<rparr>"
  by (simp add: default_manager_def EmbedManager_init_def no_kwargs_def kwarg_def module_defaults_value)

lemma test_load:
  "load_documents test_env test_manager loaded_world =
     (Inr [doc ''doc1'', doc ''doc2''],
      loaded_world\<lparr>log_calls := [Info ''Loaded 2 documents'']\<rparr>)"
  by (simp add: load_documents_def test_env_def logging_info_def str_nat_digit digit_char_def
      loaded_world_value)

lemma test_split:
  "split_documents test_env test_manager [doc ''doc1'', doc ''doc2'']
       (loaded_world\<lparr>log_calls := [Info ''Loaded 2 documents'']\<rparr>) =
     (Inr [doc ''chunk1'', doc ''chunk2''],
      loaded_world\<lparr>log_calls := [Info ''Loaded 2 documents'', Info ''Split into 2 text chunks'']\<rparr>)"
  by (simp add: split_documents_def test_env_def logging_info_def str_nat_digit digit_char_def
      loaded_world_value)

lemma test_generate:
  "generate_embeddings test_env test_manager [doc ''chunk1'', doc ''chunk2''] (Some False)
       (loaded_world\<lparr>log_calls := [Info ''Loaded 2 documents'', Info ''Split into 2 text chunks'']\<rparr>) =
     (Inr \<lparr>vectorstore = \<lparr>embedding_function = Underlying,
                            entries = [(doc ''chunk1'', [6]), (doc ''chunk2'', [6])]\<rparr>,
           r_search_type = ''mmr'', r_search_kwargs = 2\<rparr>,
      loaded_world\<lparr>model_calls := [''chunk1'', ''chunk2''],
                   lib_calls := [Call_GPT4AllEmbeddings, Call_Chroma_from_documents Underlying],
                   log_calls := [Info ''Loaded 2 documents'', Info ''Split into 2 text chunks'']\<rparr>)"
  by (simp add: generate_embeddings_without_cache test_env_def doc_def as_retriever_def
      test_manager_value loaded_world_value Let_def)

lemma failing_load:
  "load_documents failing_loader_env test_manager loaded_world =
     (Inl (LoaderError ''no such directory''), loaded_world)"
  by (simp add: load_documents_def failing_loader_env_def test_env_def)

lemma failing_split:
  "load_documents failing_splitter_env test_manager loaded_world =
     (Inr [doc ''doc1'', doc ''doc2''], loaded_world\<lparr>log_calls := [Info ''Loaded 2 documents'']\<rparr>) \<and>
   split_documents failing_splitter_env test_manager [doc ''doc1'', doc ''doc2'']
       (loaded_world\<lparr>log_calls := [Info ''Loaded 2 documents'']\<rparr>) =
     (Inl (OtherException ''bad chunk''), loaded_world\<lparr>log_calls := [Info ''Loaded 2 documents'']\<rparr>)"
  by (simp add: load_documents_def split_documents_def failing_splitter_env_def test_env_def
      logging_info_def str_nat_digit digit_char_def loaded_world_value)

lemma failing_generate:
  "load_documents failing_model_env test_manager loaded_world =
     (Inr [doc ''doc1'', doc ''doc2''], loaded_world\<lparr>log_calls := [Info ''Loaded 2 documents'']\<rparr>) \<and>
   split_documents failing_model_env test_manager [doc ''doc1'', doc ''doc2'']
       (loaded_world\<lparr>log_calls := [Info ''Loaded 2 documents'']\<rparr>) =
     (Inr [doc ''chunk1'', doc ''chunk2''],
      loaded_world\<lparr>log_calls := [Info ''Loaded 2 documents'', Info ''Split into 2 text chunks'']\<rparr>) \<and>
   generate_embeddings failing_model_env test_manager [doc ''chunk1'', doc ''chunk2'']
       (Some (use_cache test_manager))
       (loaded_world\<lparr>log_calls := [Info ''Loaded 2 documents'', Info ''Split into 2 text chunks'']\<rparr>) =
     (Inl (EmbeddingServiceError ''model unavailable''),
      loaded_world\<lparr>model_calls := [''chunk1''],
                   lib_calls := [Call_GPT4AllEmbeddings, Call_Chroma_from_documents Underlying],
                   log_calls := [Info ''Loaded 2 documents'', Info ''Split into 2 text chunks'']\<rparr>)"
  by (simp add: load_documents_def split_documents_def failing_model_env_def test_env_def
      logging_info_def str_nat_digit digit_char_def loaded_world_value
      generate_embeddings_without_cache test_manager_value doc_def Let_def)

lemma test_run:
  "run test_env test_manager loaded_world =
     (Inr \<lparr>vectorstore = \<lparr>embedding_function = Underlying,
                            entries = [(doc ''chunk1'', [6]), (doc ''chunk2'', [6])]\<rparr>,
           r_search_type = ''mmr'', r_search_kwargs = 2\<rparr>,
      loaded_world\<lparr>model_calls := [''chunk1'', ''chunk2''],
                   lib_calls := [Call_GPT4AllEmbeddings, Call_Chroma_from_documents Underlying],
                   log_calls := [Info ''Loaded 2 documents'', Info ''Split into 2 text chunks'']\<rparr>)"
  using test_load test_split test_generate
  by (simp add: run_def run_body_def test_manager_value)

lemma equal_overlap_manager_value:
  "equal_overlap_manager =
     \<lparr>path = ''/srv/app'', glob_rule = ''**/*'', suffixes = 0, exclude = 1,
      language = PYTHON, parser_threshold = 500, logging_level = None,
      chunk_size = 2000, chunk_overlap = 2000, cache_dir = ''/srv/app/cache'',
      namespace_cache = ''cache_embeddings'', search_type = ''mmr'',
      search_kwargs = 2, use_cache = True\<rparr>"
  by (simp add: equal_overlap_manager_def EmbedManager_init_def no_kwargs_def kwarg_def
      module_defaults_value)

lemma second_default_manager_value: "second_default_manager = default_manager"
  by (simp add: second_default_manager_def default_manager_def EmbedManager_init_def no_kwargs_def)




section \<open>The claims\<close>

subsection \<open>C1: with the cache, no text goes to the model twice\<close>



subsection \<open>C2: a call with caching switched off leaves the cache alone\<close>

text \<open>
  C2. For every list of texts, \<open>generate_embeddings(texts, use_cache=False)\<close> constructs no
  byte store and no cache-backed wrapper, uses the underlying embedding model directly,
  and neither reads nor writes the cache directories. In the model: the directories after
  the call are the directories before it; the call makes no library call that creates a
  store or a cache-backed embedder; run on a world with any other directory contents
  \<open>dk\<close> it gives the same result and the same effects (so nothing was read); and when it
  returns a retriever, the index holds the underlying embedder and every text went to
  the model, in order.
\<close>

theorem no_cache_bypasses_store:
  "disk (snd (generate_embeddings E m texts (Some False) w)) = disk w \<and>
   filter is_cache_call (lib_calls (snd (generate_embeddings E m texts (Some False) w))) =
     filter is_cache_call (lib_calls w) \<and>
   generate_embeddings E m texts (Some False) (w\<lparr>disk := dk\<rparr>) =
     (fst (generate_embeddings E m texts (Some False) w),
      (snd (generate_embeddings E m texts (Some False) w))\<lparr>disk := dk\<rparr>) \<and>
   (generate_embeddings E m texts (Some False) w = (Inr r, w') \<longrightarrow>
      embedding_function (vectorstore r) = Underlying \<and>
      model_calls w' = model_calls w @ map page_content texts)"
proof (cases "model_init E")
  case (Some e)
  then show ?thesis
    by (simp add: generate_embeddings_without_cache world_swap)
next
  case None
  let ?w0 = "w\<lparr>lib_calls := lib_calls w @ [Call_GPT4AllEmbeddings, Call_Chroma_from_documents Underlying]\<rparr>"
  let ?ts = "map page_content texts"
  obtain res w1 where run: "model_embed_all E ?ts ?w0 = (res, w1)"
    by (cases "model_embed_all E ?ts ?w0") auto
  have frame: "disk w1 = disk w" "lib_calls w1 = lib_calls ?w0"
    using model_embed_all_frame [OF run] by simp_all
  have moved: "model_embed_all E ?ts (?w0\<lparr>disk := dk\<rparr>) = (res, w1\<lparr>disk := dk\<rparr>)"
    by (rule model_embed_all_disk [OF run])
  show ?thesis
  proof (cases res)
    case (Inl e)
    then show ?thesis
      using None run frame moved
      by (simp add: generate_embeddings_without_cache world_swap)
  next
    case (Inr vectors)
    then show ?thesis
      using None run frame moved model_embed_all_success [of E ?ts ?w0 vectors w1]
      by (auto simp: generate_embeddings_without_cache world_swap as_retriever_def)
  qed
qed

theorem no_cache_bypasses_store_witness:
  "embedding_function
     (vectorstore \<lparr>vectorstore = \<lparr>embedding_function = Underlying,
                                   entries = [(doc ''chunk1'', [6]), (doc ''chunk2'', [6])]\<rparr>,
                    r_search_type = ''mmr'', r_search_kwargs = 2\<rparr>) = Underlying \<and>
   model_calls
     (loaded_world\<lparr>model_calls := [''chunk1'', ''chunk2''],
                   lib_calls := [Call_GPT4AllEmbeddings, Call_Chroma_from_documents Underlying],
                   log_calls := [Info ''Loaded 2 documents'', Info ''Split into 2 text chunks'']\<rparr>) =
     model_calls
       (loaded_world\<lparr>log_calls := [Info ''Loaded 2 documents'', Info ''Split into 2 text chunks'']\<rparr>) @
     map page_content [doc ''chunk1'', doc ''chunk2'']"
  using no_cache_bypasses_store [where E = test_env and m = test_manager
      and texts = "[doc ''chunk1'', doc ''chunk2'']"
      and w = "loaded_world\<lparr>log_calls := [Info ''Loaded 2 documents'', Info ''Split into 2 text chunks'']\<rparr>"
      and r = "\<lparr>vectorstore = \<lparr>embedding_function = Underlying,
                                entries = [(doc ''chunk1'', [6]), (doc ''chunk2'', [6])]\<rparr>,
                 r_search_type = ''mmr'', r_search_kwargs = 2\<rparr>"
      and w' = "loaded_world\<lparr>model_calls := [''chunk1'', ''chunk2''],
                   lib_calls := [Call_GPT4AllEmbeddings, Call_Chroma_from_documents Underlying],
                   log_calls := [Info ''Loaded 2 documents'', Info ''Split into 2 text chunks'']\<rparr>"]
    test_generate
  by blast

subsection \<open>C3: the run is load, then split, then embed\<close>

text \<open>
  C3. For every instance \<open>m\<close>, \<open>run()\<close> composes the stages in the order load, split,
  embed: what it returns is what \<open>generate_embeddings\<close> returns on the chunks that
  \<open>split_documents\<close> made of the documents that \<open>load_documents\<close> loaded, called with
  \<open>use_cache = m.use_cache\<close>; when an earlier stage raises, that exception is the
  result. The load and split stages have no effect on the cache: after each of them the
  directories, the model's history and the library calls are as before, so the
  directories after the run are those the embedding stage leaves. (The loader and the
  splitter are the external pure functions of the specification; what is shown of the
  two methods is that they add nothing but a logging call.)
\<close>

theorem run_load_split_embed:
  "fst (run E m w) =
     (case load_documents E m w of
        (Inl e, w1) \<Rightarrow> Inl e
      | (Inr documents, w1) \<Rightarrow>
          (case split_documents E m documents w1 of
             (Inl e, w2) \<Rightarrow> Inl e
           | (Inr texts, w2) \<Rightarrow> fst (generate_embeddings E m texts (Some (use_cache m)) w2))) \<and>
   disk (snd (run E m w)) =
     (case load_documents E m w of
        (Inl e, w1) \<Rightarrow> disk w
      | (Inr documents, w1) \<Rightarrow>
          (case split_documents E m documents w1 of
             (Inl e, w2) \<Rightarrow> disk w
           | (Inr texts, w2) \<Rightarrow> disk (snd (generate_embeddings E m texts (Some (use_cache m)) w2)))) \<and>
   disk (snd (load_documents E m w)) = disk w \<and>
   model_calls (snd (load_documents E m w)) = model_calls w \<and>
   lib_calls (snd (load_documents E m w)) = lib_calls w \<and>
   disk (snd (split_documents E m documents w)) = disk w \<and>
   model_calls (snd (split_documents E m documents w)) = model_calls w \<and>
   lib_calls (snd (split_documents E m documents w)) = lib_calls w"
proof -
  have l: "disk (snd (load_documents E m w)) = disk w \<and>
     model_calls (snd (load_documents E m w)) = model_calls w \<and>
     lib_calls (snd (load_documents E m w)) = lib_calls w"
    by (simp add: load_documents_def logging_info_def split: sum.splits)
  have s: "disk (snd (split_documents E m documents w)) = disk w \<and>
     model_calls (snd (split_documents E m documents w)) = model_calls w \<and>
     lib_calls (snd (split_documents E m documents w)) = lib_calls w" for w documents
    by (simp add: split_documents_def logging_info_def split: sum.splits)
  have r: "fst (run E m w) =
     (case load_documents E m w of
        (Inl e, w1) \<Rightarrow> Inl e
      | (Inr documents, w1) \<Rightarrow>
          (case split_documents E m documents w1 of
             (Inl e, w2) \<Rightarrow> Inl e
           | (Inr texts, w2) \<Rightarrow> fst (generate_embeddings E m texts (Some (use_cache m)) w2)))"
    by (simp add: run_def run_body_def split: prod.splits sum.splits)
  have d: "disk (snd (run E m w)) =
     (case load_documents E m w of
        (Inl e, w1) \<Rightarrow> disk w
      | (Inr documents, w1) \<Rightarrow>
          (case split_documents E m documents w1 of
             (Inl e, w2) \<Rightarrow> disk w
           | (Inr texts, w2) \<Rightarrow> disk (snd (generate_embeddings E m texts (Some (use_cache m)) w2))))"
  proof (cases "load_documents E m w")
    case (Pair res1 w1)
    have w1: "disk w1 = disk w" using l Pair by simp
    show ?thesis
    proof (cases res1)
      case (Inl e)
      with Pair w1 show ?thesis
        by (simp add: run_def run_body_def logging_error_def)
    next
      case (Inr documents)
      obtain res2 w2 where sp: "split_documents E m documents w1 = (res2, w2)"
        by (cases "split_documents E m documents w1") auto
      have w2: "disk w2 = disk w" using s [of documents w1] sp w1 by simp
      show ?thesis
      proof (cases res2)
        case (Inl e)
        with Pair Inr sp w2 show ?thesis
          by (simp add: run_def run_body_def logging_error_def)
      next
        case texts: (Inr texts)
        obtain res3 w3 where g: "generate_embeddings E m texts (Some (use_cache m)) w2 = (res3, w3)"
          by (cases "generate_embeddings E m texts (Some (use_cache m)) w2") auto
        show ?thesis
          using Pair Inr sp texts g
          by (cases res3) (simp_all add: run_def run_body_def logging_error_def)
      qed
    qed
  qed
  show ?thesis using l s r d by blast
qed

subsection \<open>C4: exceptions leave the run unchanged\<close>

text \<open>
  C4. An exception raised inside \<open>run()\<close> by the loader, by the splitter or by the
  embedding stage is the exception \<open>run()\<close> raises: the \<open>except\<close> clause logs it and raises
  it again. \<open>run()\<close> returns a retriever only when all three stages succeeded, and the
  retriever is the one the embedding stage returned.
\<close>

theorem run_surfaces_exceptions:
  "(load_documents E m w = (Inl e, w1) \<longrightarrow>
      run E m w = (Inl e, logging_error (''An error occurred: '' @ exn_str e) w1)) \<and>
   (load_documents E m w = (Inr documents, w1) \<and>
    split_documents E m documents w1 = (Inl e, w2) \<longrightarrow>
      run E m w = (Inl e, logging_error (''An error occurred: '' @ exn_str e) w2)) \<and>
   (load_documents E m w = (Inr documents, w1) \<and>
    split_documents E m documents w1 = (Inr texts, w2) \<and>
    generate_embeddings E m texts (Some (use_cache m)) w2 = (Inl e, w3) \<longrightarrow>
      run E m w = (Inl e, logging_error (''An error occurred: '' @ exn_str e) w3)) \<and>
   (run E m w = (Inr r, w') \<longrightarrow>
      (\<exists>documents w1 texts w2.
          load_documents E m w = (Inr documents, w1) \<and>
          split_documents E m documents w1 = (Inr texts, w2) \<and>
          generate_embeddings E m texts (Some (use_cache m)) w2 = (Inr r, w')))"
  by (auto simp: run_def run_body_def split: prod.splits sum.splits)

theorem run_surfaces_exceptions_witness:
  "run failing_loader_env test_manager loaded_world =
     (Inl (LoaderError ''no such directory''),
      logging_error ''An error occurred: no such directory'' loaded_world) \<and>
   run failing_splitter_env test_manager loaded_world =
     (Inl (OtherException ''bad chunk''),
      logging_error ''An error occurred: bad chunk''
        (loaded_world\<lparr>log_calls := [Info ''Loaded 2 documents'']\<rparr>)) \<and>
   run failing_model_env test_manager loaded_world =
     (Inl (EmbeddingServiceError ''model unavailable''),
      logging_error ''An error occurred: model unavailable''
        (loaded_world\<lparr>model_calls := [''chunk1''],
                      lib_calls := [Call_GPT4AllEmbeddings, Call_Chroma_from_documents Underlying],
                      log_calls := [Info ''Loaded 2 documents'', Info ''Split into 2 text chunks'']\<rparr>)) \<and>
   (\<exists>documents w1 texts w2.
       load_documents test_env test_manager loaded_world = (Inr documents, w1) \<and>
       split_documents test_env test_manager documents w1 = (Inr texts, w2) \<and>
       generate_embeddings test_env test_manager texts (Some (use_cache test_manager)) w2 =
         (Inr \<lparr>vectorstore = \<lparr>embedding_function = Underlying,
                                entries = [(doc ''chunk1'', [6]), (doc ''chunk2'', [6])]\<rparr>,
               r_search_type = ''mmr'', r_search_kwargs = 2\<rparr>,
          loaded_world\<lparr>model_calls := [''chunk1'', ''chunk2''],
                       lib_calls := [Call_GPT4AllEmbeddings, Call_Chroma_from_documents Underlying],
                       log_calls := [Info ''Loaded 2 documents'', Info ''Split into 2 text chunks'']\<rparr>))"
proof -
  note thm1 = run_surfaces_exceptions [where E = failing_loader_env and m = test_manager
      and w = loaded_world and e = "LoaderError ''no such directory''" and ?w1.0 = loaded_world]
  note thm2 = run_surfaces_exceptions [where E = failing_splitter_env and m = test_manager
      and w = loaded_world and e = "OtherException ''bad chunk''"
      and documents = "[doc ''doc1'', doc ''doc2'']"
      and ?w1.0 = "loaded_world\<lparr>log_calls := [Info ''Loaded 2 documents'']\<rparr>"
      and ?w2.0 = "loaded_world\<lparr>log_calls := [Info ''Loaded 2 documents'']\<rparr>"]
  note thm3 = run_surfaces_exceptions [where E = failing_model_env and m = test_manager
      and w = loaded_world and e = "EmbeddingServiceError ''model unavailable''"
      and documents = "[doc ''doc1'', doc ''doc2'']"
      and texts = "[doc ''chunk1'', doc ''chunk2'']"
      and ?w1.0 = "loaded_world\<lparr>log_calls := [Info ''Loaded 2 documents'']\<rparr>"
      and ?w2.0 = "loaded_world\<lparr>log_calls := [Info ''Loaded 2 documents'', Info ''Split into 2 text chunks'']\<rparr>"
      and ?w3.0 = "loaded_world\<lparr>model_calls := [''chunk1''],
                      lib_calls := [Call_GPT4AllEmbeddings, Call_Chroma_from_documents Underlying],
                      log_calls := [Info ''Loaded 2 documents'', Info ''Split into 2 text chunks'']\<rparr>"]
  note thm4 = run_surfaces_exceptions [where E = test_env and m = test_manager
      and w = loaded_world
      and r = "\<lparr>vectorstore = \<lparr>embedding_function = Underlying,
                                entries = [(doc ''chunk1'', [6]), (doc ''chunk2'', [6])]\<rparr>,
               r_search_type = ''mmr'', r_search_kwargs = 2\<rparr>"
      and w' = "loaded_world\<lparr>model_calls := [''chunk1'', ''chunk2''],
                   lib_calls := [Call_GPT4AllEmbeddings, Call_Chroma_from_documents Underlying],
                   log_calls := [Info ''Loaded 2 documents'', Info ''Split into 2 text chunks'']\<rparr>"]
  have a: "run failing_loader_env test_manager loaded_world =
     (Inl (LoaderError ''no such directory''),
      logging_error ''An error occurred: no such directory'' loaded_world)"
    using thm1 failing_load by simp
  have b: "run failing_splitter_env test_manager loaded_world =
     (Inl (OtherException ''bad chunk''),
      logging_error ''An error occurred: bad chunk''
        (loaded_world\<lparr>log_calls := [Info ''Loaded 2 documents'']\<rparr>))"
    using thm2 failing_split by simp
  have c: "run failing_model_env test_manager loaded_world =
     (Inl (EmbeddingServiceError ''model unavailable''),
      logging_error ''An error occurred: model unavailable''
        (loaded_world\<lparr>model_calls := [''chunk1''],
                      lib_calls := [Call_GPT4AllEmbeddings, Call_Chroma_from_documents Underlying],
                      log_calls := [Info ''Loaded 2 documents'', Info ''Split into 2 text chunks'']\<rparr>))"
    using thm3 failing_generate by simp
  have d: "\<exists>documents w1 texts w2.
       load_documents test_env test_manager loaded_world = (Inr documents, w1) \<and>
       split_documents test_env test_manager documents w1 = (Inr texts, w2) \<and>
       generate_embeddings test_env test_manager texts (Some (use_cache test_manager)) w2 =
         (Inr \<lparr>vectorstore = \<lparr>embedding_function = Underlying,
                                entries = [(doc ''chunk1'', [6]), (doc ''chunk2'', [6])]\<rparr>,
               r_search_type = ''mmr'', r_search_kwargs = 2\<rparr>,
          loaded_world\<lparr>model_calls := [''chunk1'', ''chunk2''],
                       lib_calls := [Call_GPT4AllEmbeddings, Call_Chroma_from_documents Underlying],
                       log_calls := [Info ''Loaded 2 documents'', Info ''Split into 2 text chunks'']\<rparr>)"
    using thm4 test_run by blast
  show ?thesis using a b c d by blast
qed

subsection \<open>C5: the chunk size and overlap are not validated by the class\<close>

text \<open>
  C5, as claimed: every configuration whose \<open>chunk_overlap\<close> is at least its \<open>chunk_size\<close>
  is rejected with a configuration error, and no chunking happens under it. The
  constructor has no check: \<open>EmbedManager(chunk_size=2000, chunk_overlap=2000)\<close> is
  built, with both values stored, and in the setting of the repository's tests
  \<open>split_documents\<close> of that instance returns the chunks.
\<close>

theorem overlap_equal_to_size_accepted:
  "chunk_size equal_overlap_manager = 2000 \<and>
   chunk_overlap equal_overlap_manager = 2000 \<and>
   chunk_size equal_overlap_manager \<le> chunk_overlap equal_overlap_manager \<and>
   split_documents test_env equal_overlap_manager [doc ''doc1'', doc ''doc2''] loaded_world =
     (Inr [doc ''chunk1'', doc ''chunk2''],
      loaded_world\<lparr>log_calls := [Info ''Split into 2 text chunks'']\<rparr>)"
  by (simp add: equal_overlap_manager_value split_documents_def test_env_def logging_info_def
      str_nat_digit digit_char_def loaded_world_value)

text \<open>
  C5, amended: the class does not validate the two values. The constructor accepts and
  stores every combination; \<open>split_documents\<close> hands the instance's language, chunk size
  and overlap unchanged to the external splitter and returns what the splitter returns;
  when the splitter rejects them, its exception is the one \<open>run()\<close> raises.
\<close>

theorem chunk_configuration_handed_to_splitter:
  "chunk_size (fst (EmbedManager_init d (kw\<lparr>kw_chunk_size := Some sz, kw_chunk_overlap := Some ov\<rparr>) w)) = sz \<and>
   chunk_overlap (fst (EmbedManager_init d (kw\<lparr>kw_chunk_size := Some sz, kw_chunk_overlap := Some ov\<rparr>) w)) = ov \<and>
   fst (split_documents E m documents w) =
     splitter_split E (language m) (chunk_size m) (chunk_overlap m) documents \<and>
   (load_documents E m w = (Inr documents, w1) \<and>
    splitter_split E (language m) (chunk_size m) (chunk_overlap m) documents = Inl e \<longrightarrow>
      run E m w = (Inl e, logging_error (''An error occurred: '' @ exn_str e) w1))"
proof -
  have a: "fst (split_documents E m documents w) =
     splitter_split E (language m) (chunk_size m) (chunk_overlap m) documents"
    by (simp add: split_documents_def split: sum.splits)
  have b: "run E m w = (Inl e, logging_error (''An error occurred: '' @ exn_str e) w1)"
    if "load_documents E m w = (Inr documents, w1)"
      and "splitter_split E (language m) (chunk_size m) (chunk_overlap m) documents = Inl e"
    using that by (simp add: run_def run_body_def split_documents_def)
  show ?thesis
    using a b by (simp add: EmbedManager_init_fields kwarg_simps)
qed

theorem chunk_configuration_handed_to_splitter_witness:
  "run failing_splitter_env equal_overlap_manager loaded_world =
     (Inl (OtherException ''bad chunk''),
      logging_error ''An error occurred: bad chunk''
        (loaded_world\<lparr>log_calls := [Info ''Loaded 2 documents'']\<rparr>))"
proof -
  have l: "load_documents failing_splitter_env equal_overlap_manager loaded_world =
     (Inr [doc ''doc1'', doc ''doc2''], loaded_world\<lparr>log_calls := [Info ''Loaded 2 documents'']\<rparr>)"
    by (simp add: load_documents_def failing_splitter_env_def test_env_def logging_info_def
        str_nat_digit digit_char_def loaded_world_value)
  have s: "splitter_split failing_splitter_env (language equal_overlap_manager)
      (chunk_size equal_overlap_manager) (chunk_overlap equal_overlap_manager)
      [doc ''doc1'', doc ''doc2''] = Inl (OtherException ''bad chunk'')"
    by (simp add: failing_splitter_env_def test_env_def)
  show ?thesis
    using chunk_configuration_handed_to_splitter [where E = failing_splitter_env
        and m = equal_overlap_manager and w = loaded_world
        and documents = "[doc ''doc1'', doc ''doc2'']"
        and ?w1.0 = "loaded_world\<lparr>log_calls := [Info ''Loaded 2 documents'']\<rparr>"
        and e = "OtherException ''bad chunk''"] l s
    by simp
qed

subsection \<open>C6: instances built with default arguments share the default objects\<close>

text \<open>
  C6, as claimed: two instances constructed with default arguments hold fresh,
  independent \<open>suffixes\<close>, \<open>exclude\<close> and \<open>search_kwargs\<close>, so that mutating one
  instance's configuration never changes the other's. The default list and dict are
  made once, when the \<open>def\<close> statement runs: after \<open>m1 = EmbedManager()\<close> and
  \<open>m2 = EmbedManager()\<close>, \<open>m1.suffixes.append('.js')\<close> changes \<open>m2.suffixes\<close>, and
  \<open>m1.search_kwargs['k'] = 3\<close> changes \<open>m2.search_kwargs\<close>.
\<close>

theorem default_objects_shared_counterexample:
  "get_list loaded_world (suffixes second_default_manager) = [''.py''] \<and>
   get_list (list_append (suffixes default_manager) ''.js'' loaded_world)
     (suffixes second_default_manager) = [''.py'', ''.js''] \<and>
   get_list (list_append (exclude default_manager) ''**/build/**'' loaded_world)
     (exclude second_default_manager) = [''**/non-utf8-encoding.py'', ''**/build/**''] \<and>
   get_dict loaded_world (search_kwargs second_default_manager) = [(''k'', 8)] \<and>
   get_dict (dict_setitem (search_kwargs default_manager) ''k'' 3 loaded_world)
     (search_kwargs second_default_manager) = [(''k'', 3)]"
  by (simp add: second_default_manager_value default_manager_value loaded_world_value
      get_list_def get_dict_def list_append_def dict_setitem_def)

text \<open>
  C6, amended: instances constructed without \<open>suffixes\<close> (\<open>exclude\<close>, \<open>search_kwargs\<close>)
  refer to one and the same default object, so an in-place change made through one
  instance is seen through the other. Instances are independent where the caller passes
  distinct objects of its own. The class itself never changes these objects: the
  constructor, \<open>generate_embeddings\<close> and \<open>run\<close> leave the heap as it was.
\<close>

theorem default_objects_are_shared:
  "suffixes (fst (EmbedManager_init d (kw1\<lparr>kw_suffixes := None\<rparr>) w1)) =
     suffixes (fst (EmbedManager_init d (kw2\<lparr>kw_suffixes := None\<rparr>) w2)) \<and>
   exclude (fst (EmbedManager_init d (kw1\<lparr>kw_exclude := None\<rparr>) w1)) =
     exclude (fst (EmbedManager_init d (kw2\<lparr>kw_exclude := None\<rparr>) w2)) \<and>
   search_kwargs (fst (EmbedManager_init d (kw1\<lparr>kw_search_kwargs := None\<rparr>) w1)) =
     search_kwargs (fst (EmbedManager_init d (kw2\<lparr>kw_search_kwargs := None\<rparr>) w2)) \<and>
   (d_suffixes d < length (heap w) \<and> heap w ! d_suffixes d = PyList xs \<longrightarrow>
      get_list (list_append (suffixes (fst (EmbedManager_init d (kw1\<lparr>kw_suffixes := None\<rparr>) w1))) x w)
        (suffixes (fst (EmbedManager_init d (kw2\<lparr>kw_suffixes := None\<rparr>) w2))) = xs @ [x]) \<and>
   (a1 \<noteq> a2 \<longrightarrow>
      get_list (list_append (suffixes (fst (EmbedManager_init d (kw1\<lparr>kw_suffixes := Some a1\<rparr>) w1))) x w)
        (suffixes (fst (EmbedManager_init d (kw2\<lparr>kw_suffixes := Some a2\<rparr>) w2))) =
      get_list w (suffixes (fst (EmbedManager_init d (kw2\<lparr>kw_suffixes := Some a2\<rparr>) w2))) \<and>
      get_dict (dict_setitem (search_kwargs (fst (EmbedManager_init d (kw1\<lparr>kw_search_kwargs := Some a1\<rparr>) w1))) k v w)
        (search_kwargs (fst (EmbedManager_init d (kw2\<lparr>kw_search_kwargs := Some a2\<rparr>) w2))) =
      get_dict w (search_kwargs (fst (EmbedManager_init d (kw2\<lparr>kw_search_kwargs := Some a2\<rparr>) w2)))) \<and>
   heap (snd (EmbedManager_init d kw1 w)) = heap w \<and>
   heap (snd (generate_embeddings E m texts uc w)) = heap w \<and>
   heap (snd (run E m w)) = heap w"
  by (simp add: EmbedManager_init_fields EmbedManager_init_world kwarg_simps list_append_same
      list_append_other dict_setitem_other run_heap generate_embeddings_heap)

theorem default_objects_are_shared_witness:
  "get_list (list_append (suffixes default_manager) ''.js'' loaded_world)
     (suffixes second_default_manager) = [''.py''] @ [''.js''] \<and>
   get_list (list_append 0 ''.js'' loaded_world) 1 = get_list loaded_world 1"
proof -
  note t = default_objects_are_shared [where d = module_defaults and ?kw1.0 = no_kwargs
      and ?kw2.0 = no_kwargs and ?w1.0 = loaded_world
      and ?w2.0 = "snd (EmbedManager_init module_defaults no_kwargs loaded_world)"
      and w = loaded_world and xs = "[''.py'']" and x = "''.js''" and ?a1.0 = 0 and ?a2.0 = 1]
  have n: "no_kwargs\<lparr>kw_suffixes := None\<rparr> = no_kwargs"
    by (simp add: no_kwargs_def)
  have h: "d_suffixes module_defaults < length (heap loaded_world) \<and>
           heap loaded_world ! d_suffixes module_defaults = PyList [''.py'']"
    by (simp add: module_defaults_value loaded_world_value)
  have a: "get_list (list_append (suffixes default_manager) ''.js'' loaded_world)
     (suffixes second_default_manager) = [''.py''] @ [''.js'']"
    using t h unfolding n default_manager_def second_default_manager_def by blast
  have ne: "(0::nat) \<noteq> 1" by simp
  have b: "get_list (list_append 0 ''.js'' loaded_world) 1 = get_list loaded_world 1"
    using t ne by (simp add: EmbedManager_init_fields kwarg_simps)
  show ?thesis using a b by blast
qed

subsection \<open>C7: an unwritable cache directory fails when the store is made\<close>

text \<open>
  C7. When the configured cache directory is unwritable, the failure is raised when the
  byte store for it is constructed, not at the first write of a key; on a writable
  path the construction succeeds. The store is the one modelled from section 4.2 of the
  specification. What the source adds: \<open>generate_embeddings\<close> constructs the store first,
  so with the cache in use and an unwritable directory it raises the store's
  configuration error with nothing else done (no model constructed, no text embedded,
  the directories untouched).
\<close>

theorem unwritable_cache_dir_fails_at_construction:
  "(disk w (cache_dir m) = Unwritable \<longrightarrow>
      LocalFileStore (cache_dir m) w =
        (Inl (ConfigurationError (cache_dir m)),
         w\<lparr>lib_calls := lib_calls w @ [Call_LocalFileStore (cache_dir m)]\<rparr>) \<and>
      generate_embeddings E m texts (Some True) w =
        (Inl (ConfigurationError (cache_dir m)),
         w\<lparr>lib_calls := lib_calls w @ [Call_LocalFileStore (cache_dir m)]\<rparr>)) \<and>
   (disk w p = Writable entries0 \<longrightarrow>
      LocalFileStore p w = (Inr p, w\<lparr>lib_calls := lib_calls w @ [Call_LocalFileStore p]\<rparr>))"
  by (simp add: generate_embeddings_with_cache LocalFileStore_def)

theorem unwritable_cache_dir_fails_at_construction_witness:
  "generate_embeddings test_env default_manager [doc ''chunk1'', doc ''chunk2''] (Some True)
       readonly_world =
     (Inl (ConfigurationError ''/srv/app/cache''),
      readonly_world\<lparr>lib_calls := [Call_LocalFileStore ''/srv/app/cache'']\<rparr>) \<and>
   LocalFileStore ''/srv/app/cache'' loaded_world =
     (Inr ''/srv/app/cache'', loaded_world\<lparr>lib_calls := [Call_LocalFileStore ''/srv/app/cache'']\<rparr>)"
proof -
  have u: "disk readonly_world (cache_dir default_manager) = Unwritable"
    by (simp add: readonly_world_def default_manager_value)
  have l: "lib_calls readonly_world = []"
    by (simp add: readonly_world_def loaded_world_value)
  have wr: "disk loaded_world ''/srv/app/cache'' = Writable (\<lambda>k. None)"
    by (simp add: loaded_world_value)
  have a: "generate_embeddings test_env default_manager [doc ''chunk1'', doc ''chunk2'']
       (Some True) readonly_world =
     (Inl (ConfigurationError ''/srv/app/cache''),
      readonly_world\<lparr>lib_calls := [Call_LocalFileStore ''/srv/app/cache'']\<rparr>)"
    using unwritable_cache_dir_fails_at_construction [where w = readonly_world
        and m = default_manager and E = test_env and texts = "[doc ''chunk1'', doc ''chunk2'']"] u l
    by (simp add: default_manager_value)
  have b: "LocalFileStore ''/srv/app/cache'' loaded_world =
     (Inr ''/srv/app/cache'', loaded_world\<lparr>lib_calls := [Call_LocalFileStore ''/srv/app/cache'']\<rparr>)"
    using unwritable_cache_dir_fails_at_construction [where w = loaded_world
        and p = "''/srv/app/cache''" and ?entries0.0 = "\<lambda>k. None"] wr
    by (simp add: loaded_world_value)
  show ?thesis using a b by simp
qed

subsection \<open>C9: the retriever carries the instance's search settings\<close>



subsection \<open>C10: the argument's default does not follow the instance's flag\<close>

text \<open>
  C10. The \<open>use_cache\<close> parameter of \<open>generate_embeddings\<close> defaults to \<open>True\<close> whatever the
  instance's \<open>use_cache\<close> attribute is: for an instance with \<open>use_cache = False\<close>, a call
  that leaves the argument out is the call with \<open>use_cache=True\<close>, and it constructs the
  byte store. \<open>generate_embeddings\<close> never reads the attribute. The attribute takes
  effect only through \<open>run()\<close>, which passes it as the argument: a run of an instance
  with \<open>use_cache = False\<close> makes no library call that creates a store or a cache-backed
  embedder.
\<close>

theorem use_cache_argument_defaults_to_True:
  "generate_embeddings E (m\<lparr>use_cache := False\<rparr>) texts None w =
     generate_embeddings E (m\<lparr>use_cache := False\<rparr>) texts (Some True) w \<and>
   generate_embeddings E (m\<lparr>use_cache := b\<rparr>) texts uc w = generate_embeddings E m texts uc w \<and>
   Call_LocalFileStore (cache_dir m) \<in>
     set (lib_calls (snd (generate_embeddings E (m\<lparr>use_cache := False\<rparr>) texts None w))) \<and>
   filter is_cache_call (lib_calls (snd (run E (m\<lparr>use_cache := False\<rparr>) w))) =
     filter is_cache_call (lib_calls w) \<and>
   fst (run E m w) =
     (case load_documents E m w of
        (Inl e, w1) \<Rightarrow> Inl e
      | (Inr documents, w1) \<Rightarrow>
          (case split_documents E m documents w1 of
             (Inl e, w2) \<Rightarrow> Inl e
           | (Inr texts, w2) \<Rightarrow> fst (generate_embeddings E m texts (Some (use_cache m)) w2)))"
proof -
  let ?m = "m\<lparr>use_cache := False\<rparr>"
  have a: "generate_embeddings E ?m texts None w = generate_embeddings E ?m texts (Some True) w"
    by (rule generate_embeddings_default)
  have b: "generate_embeddings E (m\<lparr>use_cache := b\<rparr>) texts uc w = generate_embeddings E m texts uc w"
    by (rule generate_embeddings_flag)
  obtain res w' where g: "generate_embeddings E ?m texts (Some True) w = (res, w')"
    by (cases "generate_embeddings E ?m texts (Some True) w") auto
  have c: "Call_LocalFileStore (cache_dir m) \<in>
     set (lib_calls (snd (generate_embeddings E ?m texts None w)))"
    using generate_embeddings_with_cache_calls [OF g] a g by auto
  obtain res2 w2 where r: "run_body E ?m w = (res2, w2)"
    by (cases "run_body E ?m w") auto
  have d: "filter is_cache_call (lib_calls (snd (run E ?m w))) = filter is_cache_call (lib_calls w)"
    using run_body_without_cache_calls [OF r] r by (simp add: run_lib_calls)
  have e: "fst (run E m w) =
     (case load_documents E m w of
        (Inl e, w1) \<Rightarrow> Inl e
      | (Inr documents, w1) \<Rightarrow>
          (case split_documents E m documents w1 of
             (Inl e, w2) \<Rightarrow> Inl e
           | (Inr texts, w2) \<Rightarrow> fst (generate_embeddings E m texts (Some (use_cache m)) w2)))"
    by (simp add: run_def run_body_def split: prod.splits sum.splits)
  show ?thesis using a b c d e by blast
qed

end
